theory Spec2Isabelle
  imports Complex_Main "HOL-Library.Sublist"
begin

section \<open>Python values used by the service\<close>

text \<open>
  A Python \<open>str\<close> is modelled as a \<open>string\<close> (a list of 8-bit characters). The
  model is exact on ASCII text; a character outside ASCII is written as its UTF-8
  bytes, which \<open>lower\<close>, the word tokenizer and \<open>split\<close> leave alone (Python's own
  Unicode case mapping and Unicode word characters are outside the model).
  The float literals \<open>0.6\<close>, \<open>0.7\<close>, \<open>0.8\<close> and the money amounts are modelled as
  reals: the decimal the source writes, without binary rounding.
\<close>

datatype py_error = ValueError | KeyError | ZeroDivisionError | IndexError | AdapterError

subsection \<open>\<open>str.lower\<close>\<close>

definition ascii_uppercase :: string where
  "ascii_uppercase = ''ABCDEFGHIJKLMNOPQRSTUVWXYZ''"

definition ascii_lowercase :: string where
  "ascii_lowercase = ''abcdefghijklmnopqrstuvwxyz''"

definition lower_char :: "char \<Rightarrow> char" where
  "lower_char c = (case map_of (zip ascii_uppercase ascii_lowercase) c of
                     Some d \<Rightarrow> d | None \<Rightarrow> c)"

definition lower :: "string \<Rightarrow> string" where
  "lower s = map lower_char s"

text \<open>
  \<open>lower\<close> is \<open>str.lower\<close> on ASCII text. Python's \<open>str.lower\<close> also maps
  characters outside ASCII, two of them into ASCII letters (the Kelvin sign to
  \<open>k\<close>, the dotted capital I to \<open>i\<close> and a combining dot), which \<open>lower\<close>
  does not. Statements about \<open>lower\<close>, and about the word tokenizer below, speak
  for the code on the texts that satisfy \<open>is_ascii\<close>.
\<close>

definition is_ascii :: "string \<Rightarrow> bool" where
  "is_ascii s = list_all (\<lambda>c. of_char c < (128 :: nat)) s"

subsection \<open>The substring test \<open>k in t\<close>\<close>

fun py_in :: "string \<Rightarrow> string \<Rightarrow> bool" where
  "py_in k [] = (k = [])"
| "py_in k (c # cs) = (prefix k (c # cs) \<or> py_in k cs)"

subsection \<open>\<open>max(items, key=...)\<close>: the first item with the greatest key\<close>

fun py_max_by :: "('a \<Rightarrow> nat) \<Rightarrow> 'a \<Rightarrow> 'a list \<Rightarrow> 'a" where
  "py_max_by key best [] = best"
| "py_max_by key best (x # xs) =
     (if key best < key x then py_max_by key x xs else py_max_by key best xs)"

section \<open>The lexicon store\<close>

text \<open>
  \<open>self.financial_intents\<close>: a dict literal, so its items are iterated in the order
  they are written. The keys are distinct, and the association list keeps the order.
\<close>

definition financial_intents :: "(string \<times> string list) list" where
  "financial_intents =
    [(''savings_advice'', [''save'', ''saving'', ''savings'', ''emergency fund'', ''rainy day'']),
     (''investment_advice'',
        [''invest'', ''investment'', ''portfolio'', ''stocks'', ''bonds'', ''retirement'', ''401k'']),
     (''budgeting_help'', [''budget'', ''expense'', ''spending'', ''monthly'', ''track'', ''money'']),
     (''debt_management'',
        [''debt'', ''loan'', ''credit'', ''pay off'', ''consolidate'', ''student loan'']),
     (''tax_planning'', [''tax'', ''deduction'', ''IRS'', ''filing'', ''refund'', ''tax return'']),
     (''financial_education'', [''learn'', ''explain'', ''what is'', ''how does'', ''understand''])]"

section \<open>Intent classification\<close>

text \<open>
  \<open>sum(1 for keyword in keywords if keyword in query_lower)\<close>: the number of
  keywords of the list that occur in the lower-cased query.
\<close>

definition keyword_score :: "string list \<Rightarrow> string \<Rightarrow> nat" where
  "keyword_score keywords query_lower =
     length (filter (\<lambda>keyword. py_in keyword query_lower) keywords)"

text \<open>\<open>intent_scores\<close>: the intents with a positive score, in table order.\<close>

definition intent_scores :: "string \<Rightarrow> (string \<times> nat) list" where
  "intent_scores query_lower =
     filter (\<lambda>item. 0 < snd item)
       (map (\<lambda>item. (fst item, keyword_score (snd item) query_lower)) financial_intents)"

text \<open>\<open>best_intent.split('_')[0]\<close>: the text before the first underscore.\<close>

definition split_first :: "string \<Rightarrow> string" where
  "split_first s = takeWhile (\<lambda>c. c \<noteq> CHR ''_'') s"

definition classify_intent :: "string \<Rightarrow> string \<times> string" where
  "classify_intent query =
     (let query_lower = lower query in
      case intent_scores query_lower of
        [] \<Rightarrow> (''general_financial_advice'', ''general'')
      | item # items \<Rightarrow>
          (let best_intent = fst (py_max_by snd item items);
               category = split_first best_intent
           in (best_intent, category)))"

text \<open>
  The classifier as the specification words it: the match of a keyword is
  case-insensitive, so keyword and text are both case-folded before the substring test.
\<close>

definition spec_keyword_score :: "string list \<Rightarrow> string \<Rightarrow> nat" where
  "spec_keyword_score keywords query =
     length (filter (\<lambda>keyword. py_in (lower keyword) (lower query)) keywords)"

definition spec_intent_scores :: "string \<Rightarrow> (string \<times> nat) list" where
  "spec_intent_scores query =
     filter (\<lambda>item. 0 < snd item)
       (map (\<lambda>item. (fst item, spec_keyword_score (snd item) query)) financial_intents)"

definition spec_classify_intent :: "string \<Rightarrow> string \<times> string" where
  "spec_classify_intent query =
     (case spec_intent_scores query of
        [] \<Rightarrow> (''general_financial_advice'', ''general'')
      | item # items \<Rightarrow>
          (let best_intent = fst (py_max_by snd item items)
           in (best_intent, split_first best_intent)))"

section \<open>Keyword extraction\<close>

text \<open>
  \<open>re.findall(r'\b\w+\b', s)\<close> returns the maximal runs of word characters of \<open>s\<close>,
  left to right; \<open>s.split()\<close> returns the maximal runs of characters that are not
  whitespace. Both are one scan that collects the current run. The word
  characters are those of ASCII (letters, digits, underscore); Python's \<open>\w\<close>
  also matches the letters and digits outside ASCII, so \<open>re_findall_words\<close> is
  \<open>re.findall\<close> on ASCII text.
\<close>

definition digits :: string where
  "digits = ''0123456789''"

definition is_word_char :: "char \<Rightarrow> bool" where
  "is_word_char c = (c \<in> set (ascii_lowercase @ ascii_uppercase @ digits @ ''_''))"

definition whitespace :: string where
  "whitespace = [CHR 0x09, CHR 0x0A, CHR 0x0B, CHR 0x0C, CHR 0x0D,
                 CHR 0x1C, CHR 0x1D, CHR 0x1E, CHR 0x1F, CHR 0x20]"

definition is_space :: "char \<Rightarrow> bool" where
  "is_space c = (c \<in> set whitespace)"

fun runs_acc :: "(char \<Rightarrow> bool) \<Rightarrow> string \<Rightarrow> string \<Rightarrow> string list" where
  "runs_acc keep cur [] = (if cur = [] then [] else [cur])"
| "runs_acc keep cur (c # cs) =
     (if keep c then runs_acc keep (cur @ [c]) cs
      else (if cur = [] then [] else [cur]) @ runs_acc keep [] cs)"

definition re_findall_words :: "string \<Rightarrow> string list" where
  "re_findall_words s = runs_acc is_word_char [] s"

definition py_split :: "string \<Rightarrow> string list" where
  "py_split s = runs_acc (\<lambda>c. \<not> is_space c) [] s"

definition financial_terms :: "string list" where
  "financial_terms =
    [''save'', ''saving'', ''savings'', ''invest'', ''investment'', ''budget'', ''money'',
     ''debt'', ''loan'', ''credit'', ''tax'', ''retirement'', ''emergency'', ''fund'',
     ''stock'', ''bond'', ''portfolio'', ''income'', ''expense'', ''financial'',
     ''dollar'', ''cash'', ''bank'', ''account'', ''401k'', ''ira'']"

text \<open>\<open>[word for word in words if word in financial_terms]\<close>\<close>

definition matched_terms :: "string \<Rightarrow> string list" where
  "matched_terms text =
     filter (\<lambda>word. word \<in> set financial_terms) (re_findall_words (lower text))"

text \<open>
  \<open>_extract_keywords\<close>. Its \<open>except\<close> handler returns \<open>text.split()[:3]\<close>, but nothing
  in the \<open>try\<close> block raises on a \<open>str\<close>: \<open>lower\<close>, \<open>re.findall\<close>, the comprehension
  and the slice are total. The handler is \<open>keywords_handler\<close>; the function on
  strings is the \<open>try\<close> block.
\<close>

definition extract_keywords :: "string \<Rightarrow> string list" where
  "extract_keywords text = take 5 (matched_terms text)"

definition keywords_handler :: "string \<Rightarrow> string list" where
  "keywords_handler text = take 3 (py_split text)"

text \<open>
  \<open>str.lower\<close> and \<open>re.findall\<close> are library functions, aware of Unicode through
  tables that are not part of the repository. \<open>extract_keywords_with\<close> is the
  \<open>try\<close> block of \<open>_extract_keywords\<close> with the two as parameters, so that it
  covers whatever they return on text outside ASCII; \<open>extract_keywords\<close> is its
  instance at \<open>lower\<close> and \<open>re_findall_words\<close>, which are exact on ASCII text.
\<close>

definition extract_keywords_with ::
    "(string \<Rightarrow> string) \<Rightarrow> (string \<Rightarrow> string list) \<Rightarrow> string \<Rightarrow> string list" where
  "extract_keywords_with lower_fn findall text =
     (let words = findall (lower_fn text);
          keywords = filter (\<lambda>word. word \<in> set financial_terms) words
      in take 5 keywords)"

section \<open>Sentiment\<close>

record sentiment_result =
  label :: string
  score :: real

definition positive_words :: "string list" where
  "positive_words = [''good'', ''great'', ''excited'', ''happy'', ''awesome'', ''excellent'',
                     ''love'', ''like'', ''want'', ''help'']"

definition negative_words :: "string list" where
  "negative_words = [''bad'', ''terrible'', ''worried'', ''concerned'', ''problem'', ''debt'',
                     ''struggling'', ''confused'', ''lost'']"

definition positive_count :: "string \<Rightarrow> nat" where
  "positive_count text = length (filter (\<lambda>word. py_in word (lower text)) positive_words)"

definition negative_count :: "string \<Rightarrow> nat" where
  "negative_count text = length (filter (\<lambda>word. py_in word (lower text)) negative_words)"

definition fallback_sentiment_analysis :: "string \<Rightarrow> sentiment_result" where
  "fallback_sentiment_analysis text =
     (if negative_count text < positive_count text then \<lparr>label = ''positive'', score = 7 / 10\<rparr>
      else if positive_count text < negative_count text then \<lparr>label = ''negative'', score = 7 / 10\<rparr>
      else \<lparr>label = ''neutral'', score = 6 / 10\<rparr>)"

subsection \<open>The optional model adapter\<close>

text \<open>
  \<open>self.sentiment_analyzer\<close> is \<open>None\<close> or a pipeline: a callable from the text to a
  list of results, which may raise. The constructor sets \<open>lightweight_mode = True\<close>, so
  \<open>_initialize_models\<close> always leaves it \<open>None\<close>.
\<close>

record service =
  sentiment_analyzer :: "(string \<Rightarrow> py_error + sentiment_result list) option"

definition init_service :: service where
  "init_service = \<lparr>sentiment_analyzer = None\<rparr>"

definition label_mapping :: "(string \<times> string) list" where
  "label_mapping =
    [(''LABEL_0'', ''negative''), (''LABEL_1'', ''neutral''), (''LABEL_2'', ''positive''),
     (''NEGATIVE'', ''negative''), (''NEUTRAL'', ''neutral''), (''POSITIVE'', ''positive'')]"

text \<open>
  \<open>_analyze_sentiment\<close>: \<open>self.sentiment_analyzer(text)[0]\<close> with its label mapped;
  an exception of the call or of the index falls through to the rule-based analysis.
\<close>

definition analyze_sentiment :: "service \<Rightarrow> string \<Rightarrow> sentiment_result" where
  "analyze_sentiment self text =
     (case sentiment_analyzer self of
        None \<Rightarrow> fallback_sentiment_analysis text
      | Some pipeline \<Rightarrow>
          (case pipeline text of
             Inl e \<Rightarrow> fallback_sentiment_analysis text
           | Inr [] \<Rightarrow> fallback_sentiment_analysis text
           | Inr (result # others) \<Rightarrow>
               result\<lparr>label := (case map_of label_mapping (label result) of
                                   Some l \<Rightarrow> l | None \<Rightarrow> lower (label result))\<rparr>))"

section \<open>Entity extraction\<close>

record entity_record =
  entity :: string
  entity_value :: string
  entity_confidence :: real

definition entity_patterns :: "(string \<times> string list) list" where
  "entity_patterns =
    [(''MONEY'', [''$'', ''dollar'', ''money'', ''income'', ''salary'']),
     (''PERCENTAGE'', [''%'', ''percent'', ''rate'']),
     (''TIME'', [''month'', ''year'', ''monthly'', ''annual'', ''weekly'']),
     (''FINANCIAL_PRODUCT'', [''401k'', ''ira'', ''savings account'', ''credit card'', ''loan''])]"

definition extract_entities :: "string \<Rightarrow> entity_record list" where
  "extract_entities text =
     (let text_lower = lower text in
      concat (map (\<lambda>item.
        map (\<lambda>pattern. \<lparr>entity = fst item, entity_value = pattern, entity_confidence = 8 / 10\<rparr>)
            (filter (\<lambda>pattern. py_in pattern text_lower) (snd item)))
        entity_patterns))"

section \<open>The user profile\<close>

datatype UserType = STUDENT | PROFESSIONAL

datatype AgeRange = AGE_18_25 | AGE_26_35 | AGE_36_50 | AGE_51_ABOVE

datatype IncomeLevel =
  LEVEL_0_15000 | LEVEL_15001_30000 | LEVEL_30001_60000 | LEVEL_60001_100000 | LEVEL_100K_PLUS

datatype RiskTolerance = CONSERVATIVE | MODERATE | AGGRESSIVE

datatype CommunicationStyle = SIMPLE | DETAILED

text \<open>The \<open>value\<close> of each member, and the members in declaration order.\<close>

fun UserType_value :: "UserType \<Rightarrow> string" where
  "UserType_value STUDENT = ''student''"
| "UserType_value PROFESSIONAL = ''professional''"

fun AgeRange_value :: "AgeRange \<Rightarrow> string" where
  "AgeRange_value AGE_18_25 = ''18-25''"
| "AgeRange_value AGE_26_35 = ''26-35''"
| "AgeRange_value AGE_36_50 = ''36-50''"
| "AgeRange_value AGE_51_ABOVE = ''51+''"

fun IncomeLevel_value :: "IncomeLevel \<Rightarrow> string" where
  "IncomeLevel_value LEVEL_0_15000 = ''0-15000''"
| "IncomeLevel_value LEVEL_15001_30000 = ''15001-30000''"
| "IncomeLevel_value LEVEL_30001_60000 = ''30001-60000''"
| "IncomeLevel_value LEVEL_60001_100000 = ''60001-100000''"
| "IncomeLevel_value LEVEL_100K_PLUS = ''100000+''"

fun RiskTolerance_value :: "RiskTolerance \<Rightarrow> string" where
  "RiskTolerance_value CONSERVATIVE = ''conservative''"
| "RiskTolerance_value MODERATE = ''moderate''"
| "RiskTolerance_value AGGRESSIVE = ''aggressive''"

fun CommunicationStyle_value :: "CommunicationStyle \<Rightarrow> string" where
  "CommunicationStyle_value SIMPLE = ''simple''"
| "CommunicationStyle_value DETAILED = ''detailed''"

definition UserType_members :: "UserType list" where
  "UserType_members = [STUDENT, PROFESSIONAL]"

definition AgeRange_members :: "AgeRange list" where
  "AgeRange_members = [AGE_18_25, AGE_26_35, AGE_36_50, AGE_51_ABOVE]"

definition IncomeLevel_members :: "IncomeLevel list" where
  "IncomeLevel_members =
     [LEVEL_0_15000, LEVEL_15001_30000, LEVEL_30001_60000, LEVEL_60001_100000, LEVEL_100K_PLUS]"

definition RiskTolerance_members :: "RiskTolerance list" where
  "RiskTolerance_members = [CONSERVATIVE, MODERATE, AGGRESSIVE]"

definition CommunicationStyle_members :: "CommunicationStyle list" where
  "CommunicationStyle_members = [SIMPLE, DETAILED]"

text \<open>
  \<open>EnumClass(v)\<close>: the member whose value is \<open>v\<close>; \<open>ValueError\<close> when there is none.
\<close>

definition enum_call :: "('a \<Rightarrow> string) \<Rightarrow> 'a list \<Rightarrow> string \<Rightarrow> py_error + 'a" where
  "enum_call value_of members v =
     (case find (\<lambda>m. value_of m = v) members of
        None \<Rightarrow> Inl ValueError
      | Some m \<Rightarrow> Inr m)"

record FinancialGoal =
  goal_type :: string
  target_amount :: real
  timeline :: string
  priority :: string

record UserProfile =
  user_id :: "string option"
  name :: "string option"
  user_type :: "UserType option"
  age_range :: "AgeRange option"
  income_level :: "IncomeLevel option"
  financial_goals :: "FinancialGoal list"
  risk_tolerance :: "RiskTolerance option"
  communication_preference :: "CommunicationStyle option"
  location :: "string option"
  employment_status :: "string option"
  monthly_expenses :: "real option"
  current_savings :: "real option"
  debt_amount :: "real option"

text \<open>\<open>UserProfile()\<close>: every field \<open>None\<close>, no goals.\<close>

definition new_profile :: UserProfile where
  "new_profile =
     \<lparr>user_id = None, name = None, user_type = None, age_range = None, income_level = None,
      financial_goals = [], risk_tolerance = None, communication_preference = None,
      location = None, employment_status = None, monthly_expenses = None,
      current_savings = None, debt_amount = None\<rparr>"

subsection \<open>Setters\<close>

text \<open>
  A setter takes a member of the enumeration (\<open>isinstance\<close> holds) or a raw string.
  The assignment happens after the enumeration call returned: when the call raises,
  the setter raises and the profile is not changed.
\<close>

datatype 'a setter_arg = Member 'a | Raw string

text \<open>\<open>value.replace("_", "-")\<close>\<close>

definition replace_underscores :: "string \<Rightarrow> string" where
  "replace_underscores s = map (\<lambda>c. if c = CHR ''_'' then CHR ''-'' else c) s"

definition set_user_type :: "UserType setter_arg \<Rightarrow> UserProfile \<Rightarrow> py_error + UserProfile" where
  "set_user_type v self =
     (case v of
        Member m \<Rightarrow> Inr (self\<lparr>user_type := Some m\<rparr>)
      | Raw s \<Rightarrow>
          (case enum_call UserType_value UserType_members (lower s) of
             Inl e \<Rightarrow> Inl e
           | Inr m \<Rightarrow> Inr (self\<lparr>user_type := Some m\<rparr>)))"

definition set_age_range :: "AgeRange setter_arg \<Rightarrow> UserProfile \<Rightarrow> py_error + UserProfile" where
  "set_age_range v self =
     (case v of
        Member m \<Rightarrow> Inr (self\<lparr>age_range := Some m\<rparr>)
      | Raw s \<Rightarrow>
          (let normalized = replace_underscores s in
           case enum_call AgeRange_value AgeRange_members normalized of
             Inl e \<Rightarrow> Inl e
           | Inr m \<Rightarrow> Inr (self\<lparr>age_range := Some m\<rparr>)))"

definition set_income_level :: "IncomeLevel setter_arg \<Rightarrow> UserProfile \<Rightarrow> py_error + UserProfile" where
  "set_income_level v self =
     (case v of
        Member m \<Rightarrow> Inr (self\<lparr>income_level := Some m\<rparr>)
      | Raw s \<Rightarrow>
          (let normalized = replace_underscores s in
           case enum_call IncomeLevel_value IncomeLevel_members normalized of
             Inl e \<Rightarrow> Inl e
           | Inr m \<Rightarrow> Inr (self\<lparr>income_level := Some m\<rparr>)))"

definition set_risk_tolerance ::
    "RiskTolerance setter_arg \<Rightarrow> UserProfile \<Rightarrow> py_error + UserProfile" where
  "set_risk_tolerance v self =
     (case v of
        Member m \<Rightarrow> Inr (self\<lparr>risk_tolerance := Some m\<rparr>)
      | Raw s \<Rightarrow>
          (case enum_call RiskTolerance_value RiskTolerance_members (lower s) of
             Inl e \<Rightarrow> Inl e
           | Inr m \<Rightarrow> Inr (self\<lparr>risk_tolerance := Some m\<rparr>)))"

definition set_communication_preference ::
    "CommunicationStyle setter_arg \<Rightarrow> UserProfile \<Rightarrow> py_error + UserProfile" where
  "set_communication_preference v self =
     (case v of
        Member m \<Rightarrow> Inr (self\<lparr>communication_preference := Some m\<rparr>)
      | Raw s \<Rightarrow>
          (case enum_call CommunicationStyle_value CommunicationStyle_members (lower s) of
             Inl e \<Rightarrow> Inl e
           | Inr m \<Rightarrow> Inr (self\<lparr>communication_preference := Some m\<rparr>)))"

section \<open>Query analysis\<close>

record FinancialQuery =
  original_query :: string
  intent :: string
  entities :: "entity_record list"
  "keywords" :: "string list"
  sentiment :: string
  confidence :: real
  category :: string

text \<open>
  \<open>analyze_financial_query\<close>. No step of its \<open>try\<close> block raises on a \<open>str\<close> (the
  adapter's exceptions are handled inside \<open>_analyze_sentiment\<close>), so the function is
  the \<open>try\<close> block. The profile is a parameter that the body never reads.
\<close>

definition analyze_financial_query :: "service \<Rightarrow> string \<Rightarrow> UserProfile \<Rightarrow> FinancialQuery" where
  "analyze_financial_query self query user_profile =
     (let sentiment_result = analyze_sentiment self query;
          intent_category = classify_intent query;
          kws = extract_keywords query;
          ents = extract_entities query
      in \<lparr>original_query = query,
          intent = fst intent_category,
          entities = ents,
          keywords = kws,
          sentiment = lower (label sentiment_result),
          confidence = score sentiment_result,
          category = snd intent_category\<rparr>)"

section \<open>Budget figures\<close>

text \<open>
  Python's \<open>/\<close> raises \<open>ZeroDivisionError\<close> on a zero divisor; \<open>x or 0\<close> is \<open>0\<close> when
  \<open>x\<close> is \<open>None\<close> (or zero).
\<close>

definition py_truediv :: "real \<Rightarrow> real \<Rightarrow> py_error + real" where
  "py_truediv a b = (if b = 0 then Inl ZeroDivisionError else Inr (a / b))"

definition or_zero :: "real option \<Rightarrow> real" where
  "or_zero v = (case v of None \<Rightarrow> 0 | Some x \<Rightarrow> x)"

text \<open>
  \<open>emergency_months\<close> of \<open>_generate_professional_budget_summary\<close> and
  \<open>savings_months\<close> of \<open>_generate_student_budget_summary\<close>: the coverage figure
  each summary prints (the formatting of the summary text is not modelled).
\<close>

definition emergency_months :: "UserProfile \<Rightarrow> py_error + real" where
  "emergency_months user_profile =
     (let expenses = or_zero (monthly_expenses user_profile);
          savings = or_zero (current_savings user_profile)
      in if 0 < expenses then py_truediv savings expenses else Inr 0)"

definition savings_months :: "UserProfile \<Rightarrow> py_error + real" where
  "savings_months user_profile =
     (let expenses = or_zero (monthly_expenses user_profile);
          savings = or_zero (current_savings user_profile)
      in if 0 < expenses then py_truediv savings expenses else Inr 0)"

text \<open>
  The goal loop of the student summary: for each goal, when expenses are positive,
  \<open>goal.target_amount / max(monthly_expenses * 0.1, 25)\<close>.
\<close>

fun months_to_goal :: "real \<Rightarrow> FinancialGoal list \<Rightarrow> py_error + real list" where
  "months_to_goal expenses [] = Inr []"
| "months_to_goal expenses (goal # goals) =
     (if 0 < expenses then
        (case py_truediv (target_amount goal) (max (expenses * (1 / 10)) 25) of
           Inl e \<Rightarrow> Inl e
         | Inr months \<Rightarrow>
             (case months_to_goal expenses goals of
                Inl e \<Rightarrow> Inl e
              | Inr rest \<Rightarrow> Inr (months # rest)))
      else months_to_goal expenses goals)"

section \<open>Response selection\<close>

record PersonalizedResponse =
  content :: string
  tone :: string
  complexity_level :: string
  recommendations :: "string list"
  additional_resources :: "string list"
  follow_up_questions :: "string list"

text \<open>
  A template bucket is a dict with the keys \<open>content\<close>, \<open>recommendations\<close>,
  \<open>resources\<close> and \<open>follow_ups\<close>; a key that the literal leaves out is \<open>None\<close>.
  A bank maps a category to its bucket.
\<close>

record bucket =
  bucket_content :: "string option"
  bucket_recommendations :: "string list option"
  bucket_resources :: "string list option"
  bucket_follow_ups :: "string list option"

text \<open>\<open>str.strip()\<close>: whitespace removed at both ends.\<close>

definition strip :: "string \<Rightarrow> string" where
  "strip s = rev (dropWhile is_space (rev (dropWhile is_space s)))"

text \<open>\<open>user_profile.name or 'there'\<close>: the name unless it is \<open>None\<close> or empty.\<close>

definition name_or_there :: "UserProfile \<Rightarrow> string" where
  "name_or_there user_profile =
     (case name user_profile of
        None \<Rightarrow> ''there''
      | Some n \<Rightarrow> if n = [] then ''there'' else n)"

text \<open>
  \<open>user_profile.risk_tolerance.value if user_profile.risk_tolerance else 'moderate'\<close>
\<close>

definition risk_tolerance_or_moderate :: "UserProfile \<Rightarrow> string" where
  "risk_tolerance_or_moderate user_profile =
     (case risk_tolerance user_profile of
        None \<Rightarrow> ''moderate''
      | Some r \<Rightarrow> RiskTolerance_value r)"

subsection \<open>The template banks\<close>

definition student_savings_content :: "UserProfile \<Rightarrow> string" where
  "student_savings_content user_profile =
     ''\<newline>'' @
     ''                Hey '' @ name_or_there user_profile @ ''! '' @ [CHR 0xF0, CHR 0x9F, CHR 0x8E, CHR 0x93] @ '' Great question about saving money as a student!\<newline>'' @
     ''\<newline>'' @
     ''                Here's my advice tailored for students:\<newline>'' @
     ''\<newline>'' @
     ''                '' @ [CHR 0xF0, CHR 0x9F, CHR 0x92, CHR 0xA1] @ '' **Start Small**: Even $25-50 per month makes a huge difference over time!\<newline>'' @
     ''                '' @ [CHR 0xF0, CHR 0x9F, CHR 0x8E, CHR 0xAF] @ '' **Emergency Fund First**: Try to build a small emergency fund of $500-1000\<newline>'' @
     ''                '' @ [CHR 0xF0, CHR 0x9F, CHR 0x93, CHR 0xB1] @ '' **Use Student Discounts**: Take advantage of student pricing everywhere\<newline>'' @
     ''                '' @ [CHR 0xF0, CHR 0x9F, CHR 0x92, CHR 0xB0] @ '' **Part-time Job**: Consider a campus job or paid internship\<newline>'' @
     ''\<newline>'' @
     ''                **Quick Student Tips:**\<newline>'' @
     ''                '' @ [CHR 0xE2, CHR 0x80, CHR 0xA2] @ '' Use the 50/30/20 rule: 50% needs, 30% wants, 20% savings\<newline>'' @
     ''                '' @ [CHR 0xE2, CHR 0x80, CHR 0xA2] @ '' Try apps like Mint or YNAB (free for students!)\<newline>'' @
     ''                '' @ [CHR 0xE2, CHR 0x80, CHR 0xA2] @ '' Look for high-yield savings accounts with no minimums\<newline>'' @
     ''                '' @ [CHR 0xE2, CHR 0x80, CHR 0xA2] @ '' Avoid lifestyle inflation when you get financial aid refunds\<newline>'' @
     ''                ''"

definition student_investment_content :: "UserProfile \<Rightarrow> string" where
  "student_investment_content user_profile =
     ''\<newline>'' @
     ''                Awesome that you're thinking about investing as a student! '' @ [CHR 0xF0, CHR 0x9F, CHR 0x93, CHR 0x88] @ ''\<newline>'' @
     ''\<newline>'' @
     ''                **Why Starting Early is Your Superpower:**\<newline>'' @
     ''                '' @ [CHR 0xF0, CHR 0x9F, CHR 0x9A, CHR 0x80] @ '' Time is your biggest advantage - compound interest is magical!\<newline>'' @
     ''                '' @ [CHR 0xF0, CHR 0x9F, CHR 0x92, CHR 0xB0] @ '' Even $10-50/month can grow to thousands over time\<newline>'' @
     ''                '' @ [CHR 0xF0, CHR 0x9F, CHR 0x93, CHR 0x9A] @ '' Learning about investing now sets you up for life\<newline>'' @
     ''\<newline>'' @
     ''                **Student-Friendly Investment Options:**\<newline>'' @
     ''                '' @ [CHR 0xE2, CHR 0x80, CHR 0xA2] @ '' **Roth IRA**: Perfect for students - tax-free growth!\<newline>'' @
     ''                '' @ [CHR 0xE2, CHR 0x80, CHR 0xA2] @ '' **Target-Date Funds**: Simple, diversified, hands-off\<newline>'' @
     ''                '' @ [CHR 0xE2, CHR 0x80, CHR 0xA2] @ '' **Index Funds**: Low fees, broad market exposure\<newline>'' @
     ''                '' @ [CHR 0xE2, CHR 0x80, CHR 0xA2] @ '' **Micro-investing Apps**: Start with spare change (Acorns, Stash)\<newline>'' @
     ''\<newline>'' @
     ''                **Simple Strategy:**\<newline>'' @
     ''                1. Build $500 emergency fund first\<newline>'' @
     ''                2. Open a Roth IRA with Fidelity/Vanguard (no minimums!)\<newline>'' @
     ''                3. Invest in a target-date fund matching your graduation + 40 years\<newline>'' @
     ''                4. Invest any financial aid refunds or gift money\<newline>'' @
     ''                ''"

definition student_budgeting_content :: "UserProfile \<Rightarrow> string" where
  "student_budgeting_content user_profile =
     ''\<newline>'' @
     ''                Perfect time to learn budgeting as a student! '' @ [CHR 0xF0, CHR 0x9F, CHR 0x93, CHR 0x8A] @ ''\<newline>'' @
     ''\<newline>'' @
     ''                **Student Budget Basics:**\<newline>'' @
     ''                '' @ [CHR 0xF0, CHR 0x9F, CHR 0x8F, CHR 0xAB] @ '' **Fixed Costs**: Tuition, rent, meal plan, textbooks\<newline>'' @
     ''                '' @ [CHR 0xF0, CHR 0x9F, CHR 0x8E, CHR 0xAF] @ '' **Variable Costs**: Food, entertainment, transportation, personal items\<newline>'' @
     ''                '' @ [CHR 0xF0, CHR 0x9F, CHR 0x92, CHR 0xB0] @ '' **Income Sources**: Part-time job, financial aid, family support\<newline>'' @
     ''\<newline>'' @
     ''                **Simple Student Budget Method:**\<newline>'' @
     ''                1. List all monthly income sources\<newline>'' @
     ''                2. List all fixed expenses (things you must pay)\<newline>'' @
     ''                3. Set aside $50-100 for savings/emergency fund\<newline>'' @
     ''                4. Divide remaining money: 70% needs, 30% wants\<newline>'' @
     ''\<newline>'' @
     ''                **Money-Saving Student Hacks:**\<newline>'' @
     ''                '' @ [CHR 0xE2, CHR 0x80, CHR 0xA2] @ '' Buy used textbooks or rent them\<newline>'' @
     ''                '' @ [CHR 0xE2, CHR 0x80, CHR 0xA2] @ '' Use student discounts everywhere\<newline>'' @
     ''                '' @ [CHR 0xE2, CHR 0x80, CHR 0xA2] @ '' Cook simple meals instead of eating out\<newline>'' @
     ''                '' @ [CHR 0xE2, CHR 0x80, CHR 0xA2] @ '' Take advantage of free campus activities\<newline>'' @
     ''                ''"

definition student_base_responses :: "UserProfile \<Rightarrow> (string \<times> bucket) list" where
  "student_base_responses user_profile =
    [(''savings'',
       \<lparr>bucket_content = Some (student_savings_content user_profile),
        bucket_recommendations = Some
          [''Open a high-yield savings account with no minimum balance'',
           ''Set up automatic transfers of $25-50 per month'',
           ''Track spending for one month to identify money leaks'',
           ''Apply for student discounts on subscriptions and services''],
        bucket_resources = Some
          [''Student Budget Template'',
           ''Campus Financial Counseling Services'',
           ''Free Financial Literacy Apps''],
        bucket_follow_ups = Some
          [''What's your biggest monthly expense besides tuition?'',
           ''Do you have any income from part-time work?'',
           ''Would you like help setting up your first budget?'']\<rparr>),
     (''investment'',
       \<lparr>bucket_content = Some (student_investment_content user_profile),
        bucket_recommendations = Some
          [''Open a Roth IRA - perfect for students with low income'',
           ''Start with a target-date fund for simplicity'',
           ''Use micro-investing apps to begin with small amounts'',
           ''Take a free online investing course''],
        bucket_resources = Some
          [''Student Investment Guide'',
           ''Roth IRA Comparison Chart'',
           ''Free Investment Courses''],
        bucket_follow_ups = Some
          [''Do you have any earned income this year?'',
           ''What's your investment timeline?'',
           ''Are you interested in learning about index funds?'']\<rparr>),
     (''budgeting'',
       \<lparr>bucket_content = Some (student_budgeting_content user_profile),
        bucket_recommendations = Some
          [''Use a budgeting app designed for students'',
           ''Track every expense for one week to see patterns'',
           ''Set up a separate savings account'',
           ''Look for student discounts on everything you buy''],
        bucket_resources = None,
        bucket_follow_ups = None\<rparr>)]"

definition professional_investment_content :: "UserProfile \<Rightarrow> string" where
  "professional_investment_content user_profile =
     ''\<newline>'' @
     ''                Excellent question about investment strategy! '' @ [CHR 0xF0, CHR 0x9F, CHR 0x92, CHR 0xBC] @ ''\<newline>'' @
     ''\<newline>'' @
     ''                Based on your profile as a working professional, here's a comprehensive approach:\<newline>'' @
     ''\<newline>'' @
     ''                **Portfolio Allocation Strategy:**\<newline>'' @
     ''                '' @ [CHR 0xF0, CHR 0x9F, CHR 0x8E, CHR 0xAF] @ '' **Age-Based Rule**: Consider 100 - your age = stock percentage\<newline>'' @
     ''                '' @ [CHR 0xE2, CHR 0x9A, CHR 0x96, CHR 0xEF, CHR 0xB8, CHR 0x8F] @ '' **Risk Tolerance**: Your '' @ risk_tolerance_or_moderate user_profile @ '' profile suggests balanced growth\<newline>'' @
     ''                '' @ [CHR 0xF0, CHR 0x9F, CHR 0x8C, CHR 0x8D] @ '' **Diversification**: Mix of domestic/international, large/small cap\<newline>'' @
     ''\<newline>'' @
     ''                **Tax-Advantaged Account Priority:**\<newline>'' @
     ''                1. **401(k) Match**: Contribute enough for full employer match (free money!)\<newline>'' @
     ''                2. **Roth IRA**: $6,000/year if income allows\<newline>'' @
     ''                3. **Additional 401(k)**: Up to $22,500/year limit\<newline>'' @
     ''                4. **Taxable Account**: For additional investments\<newline>'' @
     ''\<newline>'' @
     ''                **Advanced Strategies:**\<newline>'' @
     ''                '' @ [CHR 0xE2, CHR 0x80, CHR 0xA2] @ '' **Tax-Loss Harvesting**: Offset gains with strategic losses\<newline>'' @
     ''                '' @ [CHR 0xE2, CHR 0x80, CHR 0xA2] @ '' **Asset Location**: Hold tax-inefficient investments in tax-advantaged accounts\<newline>'' @
     ''                '' @ [CHR 0xE2, CHR 0x80, CHR 0xA2] @ '' **Rebalancing**: Quarterly review and rebalance to target allocation\<newline>'' @
     ''                ''"

definition professional_savings_content :: "UserProfile \<Rightarrow> string" where
  "professional_savings_content user_profile =
     ''\<newline>'' @
     ''                Strategic savings approach for professionals: '' @ [CHR 0xF0, CHR 0x9F, CHR 0x92, CHR 0xB0] @ ''\<newline>'' @
     ''\<newline>'' @
     ''                **Savings Rate Targets:**\<newline>'' @
     ''                '' @ [CHR 0xF0, CHR 0x9F, CHR 0x8E, CHR 0xAF] @ '' **Emergency Fund**: 3-6 months expenses in high-yield savings\<newline>'' @
     ''                '' @ [CHR 0xF0, CHR 0x9F, CHR 0x93, CHR 0x88] @ '' **Savings Rate**: Aim for 20% of gross income\<newline>'' @
     ''                '' @ [CHR 0xF0, CHR 0x9F, CHR 0x8F, CHR 0xA0] @ '' **Goal-Based Saving**: Separate accounts for different objectives\<newline>'' @
     ''\<newline>'' @
     ''                **High-Yield Account Strategy:**\<newline>'' @
     ''                '' @ [CHR 0xE2, CHR 0x80, CHR 0xA2] @ '' Online banks typically offer 4-5% APY\<newline>'' @
     ''                '' @ [CHR 0xE2, CHR 0x80, CHR 0xA2] @ '' Consider CD ladders for portion of emergency fund\<newline>'' @
     ''                '' @ [CHR 0xE2, CHR 0x80, CHR 0xA2] @ '' Money market accounts for easy access\<newline>'' @
     ''\<newline>'' @
     ''                **Advanced Savings Techniques:**\<newline>'' @
     ''                '' @ [CHR 0xE2, CHR 0x80, CHR 0xA2] @ '' **Automated Transfers**: Set up automatic savings on payday\<newline>'' @
     ''                '' @ [CHR 0xE2, CHR 0x80, CHR 0xA2] @ '' **Pay Yourself First**: Save before discretionary spending\<newline>'' @
     ''                '' @ [CHR 0xE2, CHR 0x80, CHR 0xA2] @ '' **Bonus Strategy**: Save 50% of bonuses, raises, tax refunds\<newline>'' @
     ''                ''"

definition professional_base_responses :: "UserProfile \<Rightarrow> (string \<times> bucket) list" where
  "professional_base_responses user_profile =
    [(''investment'',
       \<lparr>bucket_content = Some (professional_investment_content user_profile),
        bucket_recommendations = Some
          [''Maximize 401(k) employer match immediately'',
           ''Open and fund Roth IRA if income eligible'',
           ''Consider low-cost index funds (VTSAX, FXNAX)'',
           ''Implement tax-loss harvesting strategy'',
           ''Review and rebalance portfolio quarterly''],
        bucket_resources = Some
          [''Advanced Portfolio Management Tools'',
           ''Tax-Loss Harvesting Guide'',
           ''Professional Financial Planning Resources''],
        bucket_follow_ups = None\<rparr>),
     (''savings'',
       \<lparr>bucket_content = Some (professional_savings_content user_profile),
        bucket_recommendations = None,
        bucket_resources = None,
        bucket_follow_ups = None\<rparr>)]"

definition professional_default_follow_ups :: "string list" where
  "professional_default_follow_ups =
     [''What's your current asset allocation?'',
      ''Are you maximizing all tax-advantaged accounts?'',
      ''Would you like specific fund recommendations?'']"

definition generate_general_response :: "FinancialQuery \<Rightarrow> UserProfile \<Rightarrow> PersonalizedResponse" where
  "generate_general_response query user_profile =
     \<lparr>content = ''Thanks for your question! I'd be happy to provide personalized advice once you complete your profile setup. This helps me tailor recommendations to your specific situation and goals.'',
      tone = ''helpful'',
      complexity_level = ''medium'',
      recommendations = [''Complete your user profile for personalized advice''],
      additional_resources = [''Financial Planning Basics''],
      follow_up_questions = [''Would you like to complete your profile setup?'']\<rparr>"

definition generate_fallback_response :: "FinancialQuery \<Rightarrow> PersonalizedResponse" where
  "generate_fallback_response query =
     \<lparr>content = ''I'm here to help with your financial questions! Could you please rephrase your question or be more specific about what you'd like to know?'',
      tone = ''helpful'',
      complexity_level = ''simple'',
      recommendations = [''Try asking about savings, investments, budgeting, or debt management''],
      additional_resources = [''Financial FAQ''],
      follow_up_questions = [''What specific financial topic would you like help with?'']\<rparr>"

subsection \<open>Selecting and filling a bucket\<close>

text \<open>
  \<open>base_responses.get(category, base_responses.get(k, base_responses[k]))\<close>: the
  arguments are evaluated first, so a bank without the default key \<open>k\<close> raises
  \<open>KeyError\<close> whatever the category is.
\<close>

definition select_bucket :: "(string \<times> bucket) list \<Rightarrow> string \<Rightarrow> string \<Rightarrow> py_error + bucket" where
  "select_bucket base_responses k cat =
     (case map_of base_responses k of
        None \<Rightarrow> Inl KeyError
      | Some fallback_bucket \<Rightarrow>
          Inr (case map_of base_responses cat of
                 Some response_data \<Rightarrow> response_data
               | None \<Rightarrow> fallback_bucket))"

text \<open>\<open>d.get(key, default)\<close>\<close>

definition get_or :: "'a option \<Rightarrow> 'a \<Rightarrow> 'a" where
  "get_or v dflt = (case v of None \<Rightarrow> dflt | Some x \<Rightarrow> x)"

definition student_response_of ::
    "(string \<times> bucket) list \<Rightarrow> FinancialQuery \<Rightarrow> py_error + PersonalizedResponse" where
  "student_response_of base_responses query =
     (case select_bucket base_responses ''savings'' (category query) of
        Inl e \<Rightarrow> Inl e
      | Inr response_data \<Rightarrow>
          (case bucket_content response_data of
             None \<Rightarrow> Inl KeyError
           | Some c \<Rightarrow>
               Inr \<lparr>content = strip c,
                    tone = ''friendly and educational'',
                    complexity_level = ''simple'',
                    recommendations = get_or (bucket_recommendations response_data) [],
                    additional_resources = get_or (bucket_resources response_data) [],
                    follow_up_questions = get_or (bucket_follow_ups response_data) []\<rparr>))"

definition professional_response_of ::
    "(string \<times> bucket) list \<Rightarrow> FinancialQuery \<Rightarrow> py_error + PersonalizedResponse" where
  "professional_response_of base_responses query =
     (case select_bucket base_responses ''investment'' (category query) of
        Inl e \<Rightarrow> Inl e
      | Inr response_data \<Rightarrow>
          (case bucket_content response_data of
             None \<Rightarrow> Inl KeyError
           | Some c \<Rightarrow>
               Inr \<lparr>content = strip c,
                    tone = ''professional and detailed'',
                    complexity_level = ''advanced'',
                    recommendations = get_or (bucket_recommendations response_data) [],
                    additional_resources = get_or (bucket_resources response_data) [],
                    follow_up_questions =
                      get_or (bucket_follow_ups response_data) professional_default_follow_ups\<rparr>))"

definition generate_student_response ::
    "FinancialQuery \<Rightarrow> UserProfile \<Rightarrow> py_error + PersonalizedResponse" where
  "generate_student_response query user_profile =
     student_response_of (student_base_responses user_profile) query"

definition generate_professional_response ::
    "FinancialQuery \<Rightarrow> UserProfile \<Rightarrow> py_error + PersonalizedResponse" where
  "generate_professional_response query user_profile =
     professional_response_of (professional_base_responses user_profile) query"

text \<open>
  The dispatch of \<open>generate_personalized_response\<close> with its \<open>try\<close>/\<open>except\<close>, over
  any pair of banks: an exception of the selected generator is replaced by the
  fallback response.
\<close>

definition respond_with ::
    "(string \<times> bucket) list \<Rightarrow> (string \<times> bucket) list \<Rightarrow>
     FinancialQuery \<Rightarrow> UserProfile \<Rightarrow> PersonalizedResponse" where
  "respond_with student_bank professional_bank query user_profile =
     (case (if user_type user_profile = Some STUDENT then
              student_response_of student_bank query
            else if user_type user_profile = Some PROFESSIONAL then
              professional_response_of professional_bank query
            else Inr (generate_general_response query user_profile)) of
        Inr response \<Rightarrow> response
      | Inl e \<Rightarrow> generate_fallback_response query)"

definition generate_personalized_response ::
    "FinancialQuery \<Rightarrow> UserProfile \<Rightarrow> PersonalizedResponse" where
  "generate_personalized_response query user_profile =
     respond_with (student_base_responses user_profile)
       (professional_base_responses user_profile) query user_profile"

section \<open>Inputs and relations of the tested properties\<close>

text \<open>
  A query analysis with an intent and a category that no table knows.
\<close>

definition garbage_query :: FinancialQuery where
  "garbage_query = \<lparr>original_query = ''??'', intent = ''garbage'', entities = [], keywords = [],
     sentiment = ''none'', confidence = 0, category = ''no such category''\<rparr>"















section \<open>Facts about the string primitives\<close>

lemma py_in_sublist: "py_in k t = sublist k t"
  by (induction t) (auto simp: sublist_Cons_right)

lemma lower_char_idem: "lower_char (lower_char c) = lower_char c"
  by (simp add: lower_char_def ascii_uppercase_def ascii_lowercase_def)

lemma lower_idem: "lower (lower s) = lower s"
  by (simp add: lower_def lower_char_idem)

lemma lower_char_not_upper: "lower_char c \<notin> set ascii_uppercase"
  by (simp add: lower_char_def ascii_uppercase_def ascii_lowercase_def)

section \<open>Intent classification: the upper-case keyword\<close>

text \<open>
  The query is lower-cased, the keywords are not. The keyword \<open>IRS\<close> of the tax
  lexicon is written in capitals, so it occurs in no lower-cased query.
\<close>

lemma IRS_never_matches: "\<not> py_in ''IRS'' (lower query)"
proof
  assume "py_in ''IRS'' (lower query)"
  then have "sublist ''IRS'' (lower query)" by (simp add: py_in_sublist)
  then have "set ''IRS'' \<subseteq> set (lower query)" by (rule set_mono_sublist)
  then have "CHR ''I'' \<in> set (lower query)" by simp
  then obtain c where "lower_char c = CHR ''I''" by (auto simp: lower_def)
  with lower_char_not_upper [of c] show False by (simp add: ascii_uppercase_def)
qed

text \<open>
  Claim C1. The classifier counts case-insensitive substring matches of every lexicon
  keyword and returns the intent with the highest count, \<open>general_financial_advice\<close>
  only when all counts are zero. On the query \<open>IRS audit\<close> the case-insensitive count
  of the tax lexicon is one, so the classifier as specified answers \<open>tax_planning\<close>
  with category \<open>tax\<close>; the code scores every intent zero and answers
  \<open>general_financial_advice\<close> with category \<open>general\<close>.
\<close>

theorem classify_intent_uppercase_keyword:
  "classify_intent ''IRS audit'' = (''general_financial_advice'', ''general'')
   \<and> intent_scores (lower ''IRS audit'') = []
   \<and> spec_intent_scores ''IRS audit'' = [(''tax_planning'', 1)]
   \<and> spec_classify_intent ''IRS audit'' = (''tax_planning'', ''tax'')"
  by code_simp

section \<open>Keyword extraction: the first five vocabulary terms, in text order\<close>

text \<open>
  Claim C2, as the code has it. For every text, keyword extraction returns exactly
  the first five vocabulary tokens of the lower-cased text in text order, repeats
  kept (all of them when there are fewer than five): so at most five items, all of
  them terms of the financial vocabulary, a subsequence of the tokens of the text.
  When the text has no vocabulary term the result is the empty list: the
  first-three-raw-tokens value is the exception handler's, which a string input
  never reaches. This holds whatever \<open>str.lower\<close> and \<open>re.findall\<close> return (the
  first five conjuncts, over any case map and any tokenizer); on ASCII text the
  function is \<open>extract_keywords\<close>, with \<open>lower\<close> and \<open>re_findall_words\<close>.
\<close>

theorem extract_keywords_first_five:
  "extract_keywords_with lower_fn findall text
      = take 5 (filter (\<lambda>word. word \<in> set financial_terms) (findall (lower_fn text)))
   \<and> length (extract_keywords_with lower_fn findall text)
      = min 5 (length (filter (\<lambda>word. word \<in> set financial_terms) (findall (lower_fn text))))
   \<and> set (extract_keywords_with lower_fn findall text) \<subseteq> set financial_terms
   \<and> subseq (extract_keywords_with lower_fn findall text) (findall (lower_fn text))
   \<and> (filter (\<lambda>word. word \<in> set financial_terms) (findall (lower_fn text)) = [] \<longrightarrow>
        extract_keywords_with lower_fn findall text = [])
   \<and> (is_ascii text \<longrightarrow>
        extract_keywords text = extract_keywords_with lower re_findall_words text
        \<and> extract_keywords text = take 5 (matched_terms text)
        \<and> matched_terms text
           = filter (\<lambda>word. word \<in> set financial_terms) (re_findall_words (lower text))
        \<and> length (extract_keywords text) = min 5 (length (matched_terms text))
        \<and> length (extract_keywords text) \<le> 5
        \<and> set (extract_keywords text) \<subseteq> set financial_terms
        \<and> prefix (extract_keywords text) (matched_terms text)
        \<and> subseq (matched_terms text) (re_findall_words (lower text))
        \<and> (matched_terms text = [] \<longrightarrow> extract_keywords text = []))"
proof -
  let ?terms = "filter (\<lambda>word. word \<in> set financial_terms) (findall (lower_fn text))"
  have with_eq: "extract_keywords_with lower_fn findall text = take 5 ?terms"
    by (simp add: extract_keywords_with_def)
  have with_len: "length (extract_keywords_with lower_fn findall text) = min 5 (length ?terms)"
    by (simp add: with_eq min.commute)
  have "set (take 5 ?terms) \<subseteq> set ?terms" by (rule set_take_subset)
  then have with_set: "set (extract_keywords_with lower_fn findall text) \<subseteq> set financial_terms"
    unfolding with_eq by auto
  have "subseq (take 5 ?terms) ?terms" by (simp add: take_is_prefix prefix_imp_subseq)
  moreover have "subseq ?terms (findall (lower_fn text))" by simp
  ultimately have with_sub: "subseq (extract_keywords_with lower_fn findall text) (findall (lower_fn text))"
    unfolding with_eq by (rule subseq_order.trans)
  have with_none: "?terms = [] \<longrightarrow> extract_keywords_with lower_fn findall text = []"
    by (simp add: with_eq)
  have inst: "extract_keywords text = extract_keywords_with lower re_findall_words text"
    by (simp add: extract_keywords_def extract_keywords_with_def matched_terms_def)
  have eq: "extract_keywords text = take 5 (matched_terms text)"
    by (simp add: extract_keywords_def)
  have terms: "matched_terms text
      = filter (\<lambda>word. word \<in> set financial_terms) (re_findall_words (lower text))"
    by (simp add: matched_terms_def)
  have len: "length (extract_keywords text) = min 5 (length (matched_terms text))"
    by (simp add: eq min.commute)
  have le: "length (extract_keywords text) \<le> 5" by (simp add: eq)
  have "set (extract_keywords text) \<subseteq> set (matched_terms text)"
    unfolding eq by (rule set_take_subset)
  moreover have "set (matched_terms text) \<subseteq> set financial_terms"
    by (auto simp: matched_terms_def)
  ultimately have vocab: "set (extract_keywords text) \<subseteq> set financial_terms" by blast
  have pre: "prefix (extract_keywords text) (matched_terms text)"
    by (simp add: eq take_is_prefix)
  have sub: "subseq (matched_terms text) (re_findall_words (lower text))"
    by (simp add: matched_terms_def)
  have none: "matched_terms text = [] \<longrightarrow> extract_keywords text = []"
    by (simp add: eq)
  from with_eq with_len with_set with_sub with_none inst eq terms len le vocab pre sub none
  show ?thesis by blast
qed

theorem extract_keywords_first_five_witness:
  "matched_terms ''hello world foo'' = []
   \<and> extract_keywords ''hello world foo'' = []
   \<and> extract_keywords_with lower re_findall_words ''hello world foo'' = []
   \<and> length (extract_keywords ''Save money, save more: budget, debt, tax and a loan'') = 5
   \<and> matched_terms ''Save money, save more: budget, debt, tax and a loan''
       = [''save'', ''money'', ''save'', ''budget'', ''debt'', ''tax'', ''loan'']
   \<and> extract_keywords ''Save money, save more: budget, debt, tax and a loan''
       = [''save'', ''money'', ''save'', ''budget'', ''debt'']
   \<and> extract_keywords ''my bank account'' = [''bank'', ''account'']"
proof -
  have none: "matched_terms ''hello world foo'' = []" by code_simp
  have seven: "matched_terms ''Save money, save more: budget, debt, tax and a loan''
       = [''save'', ''money'', ''save'', ''budget'', ''debt'', ''tax'', ''loan'']" by code_simp
  have two: "matched_terms ''my bank account'' = [''bank'', ''account'']" by code_simp
  have ascii: "is_ascii ''hello world foo''"
    "is_ascii ''Save money, save more: budget, debt, tax and a loan''"
    "is_ascii ''my bank account''"
    by code_simp+
  note a = extract_keywords_first_five [of lower re_findall_words "''hello world foo''"]
  note b = extract_keywords_first_five
      [of lower re_findall_words "''Save money, save more: budget, debt, tax and a loan''"]
  note c = extract_keywords_first_five [of lower re_findall_words "''my bank account''"]
  from a none ascii(1) have 1: "extract_keywords ''hello world foo'' = []" by blast
  from a ascii(1) have "extract_keywords ''hello world foo''
      = extract_keywords_with lower re_findall_words ''hello world foo''" by blast
  with 1 have 2: "extract_keywords_with lower re_findall_words ''hello world foo'' = []"
    by simp
  from b ascii(2) have "extract_keywords ''Save money, save more: budget, debt, tax and a loan''
      = take 5 (matched_terms ''Save money, save more: budget, debt, tax and a loan'')"
    by blast
  then have 3: "extract_keywords ''Save money, save more: budget, debt, tax and a loan''
       = [''save'', ''money'', ''save'', ''budget'', ''debt'']"
    by (simp add: seven)
  from c ascii(3) have "extract_keywords ''my bank account'' = take 5 (matched_terms ''my bank account'')"
    by blast
  then have 4: "extract_keywords ''my bank account'' = [''bank'', ''account'']"
    by (simp add: two)
  from none 1 2 3 4 seven show ?thesis by simp
qed

text \<open>
  Claim C2 as stated fails: the text \<open>hello world foo\<close> has no vocabulary term, the
  code returns the empty list for it, and its first three raw tokens are
  \<open>hello\<close>, \<open>world\<close>, \<open>foo\<close>.
\<close>

theorem extract_keywords_no_token_fallback:
  "matched_terms ''hello world foo'' = []
   \<and> extract_keywords ''hello world foo'' = []
   \<and> keywords_handler ''hello world foo'' = [''hello'', ''world'', ''foo'']
   \<and> extract_keywords ''hello world foo'' \<noteq> keywords_handler ''hello world foo''"
  by code_simp

section \<open>Rule-based sentiment\<close>

text \<open>
  Claim C3. For every text, the rule-based sentiment is \<open>positive\<close> with score 0.7
  when the positive hits strictly exceed the negative hits, \<open>negative\<close> with score
  0.7 when the negative hits strictly exceed the positive hits, and \<open>neutral\<close> with
  score 0.6 when the two counts are equal (both zero included).
\<close>

theorem fallback_sentiment_by_counts: "(negative_count text < positive_count text \<longrightarrow>
      fallback_sentiment_analysis text = \<lparr>label = ''positive'', score = 7 / 10\<rparr>)
   \<and> (positive_count text < negative_count text \<longrightarrow>
      fallback_sentiment_analysis text = \<lparr>label = ''negative'', score = 7 / 10\<rparr>)
   \<and> (positive_count text = negative_count text \<longrightarrow>
      fallback_sentiment_analysis text = \<lparr>label = ''neutral'', score = 6 / 10\<rparr>)"
  by (simp add: fallback_sentiment_analysis_def)

theorem fallback_sentiment_by_counts_witness:
  "fallback_sentiment_analysis ''I love it'' = \<lparr>label = ''positive'', score = 7 / 10\<rparr>
   \<and> fallback_sentiment_analysis ''I am worried about my debt''
       = \<lparr>label = ''negative'', score = 7 / 10\<rparr>
   \<and> fallback_sentiment_analysis '''' = \<lparr>label = ''neutral'', score = 6 / 10\<rparr>
   \<and> fallback_sentiment_analysis ''good but bad'' = \<lparr>label = ''neutral'', score = 6 / 10\<rparr>"
proof -
  have counts:
    "positive_count ''I love it'' = 1" "negative_count ''I love it'' = 0"
    "positive_count ''I am worried about my debt'' = 0"
    "negative_count ''I am worried about my debt'' = 2"
    "positive_count '''' = 0" "negative_count '''' = 0"
    "positive_count ''good but bad'' = 1" "negative_count ''good but bad'' = 1"
    by code_simp+
  show ?thesis
    using fallback_sentiment_by_counts [of "''I love it''"]
          fallback_sentiment_by_counts [of "''I am worried about my debt''"]
          fallback_sentiment_by_counts [of "''''"]
          fallback_sentiment_by_counts [of "''good but bad''"]
    by (simp add: counts)
qed

section \<open>Analysis of the empty query, and the unused profile\<close>

text \<open>
  Claim C5. The analysis of the empty string returns a query analysis (the function
  is total: nothing is raised) with intent \<open>general_financial_advice\<close>, category
  \<open>general\<close>, sentiment \<open>neutral\<close> and the fixed confidence 0.6, whatever the profile.
\<close>

theorem analyze_empty_query: "analyze_financial_query init_service '''' user_profile =
   \<lparr>original_query = '''', intent = ''general_financial_advice'', entities = [], keywords = [],
    sentiment = ''neutral'', confidence = 6 / 10, category = ''general''\<rparr>"
proof -
  have 1: "analyze_sentiment init_service '''' = \<lparr>label = ''neutral'', score = 6 / 10\<rparr>" by code_simp
  have 2: "classify_intent '''' = (''general_financial_advice'', ''general'')" by code_simp
  have 3: "extract_keywords '''' = []" by code_simp
  have 4: "extract_entities '''' = []" by code_simp
  have 5: "lower ''neutral'' = ''neutral''" by code_simp
  show ?thesis by (simp add: analyze_financial_query_def 1 2 3 4 5)
qed

text \<open>
  Claim C10. For every service, every query text and any two profiles, the analysis
  is the same value: the profile has no influence on any field of the result.
\<close>

theorem analyze_query_ignores_profile:
  "analyze_financial_query self query profile_a = analyze_financial_query self query profile_b"
  by (simp add: analyze_financial_query_def)

section \<open>Budget coverage\<close>

lemma months_to_goal_ok: "\<exists>ms. months_to_goal expenses goals = Inr ms"
proof (induction goals)
  case Nil
  show ?case by simp
next
  case (Cons goal goals)
  then obtain ms where ms: "months_to_goal expenses goals = Inr ms" by blast
  have "max (expenses * (1 / 10)) 25 \<noteq> 0" by (simp add: max_def)
  then show ?case by (simp add: ms py_truediv_def)
qed

text \<open>
  Claim C8. In both summaries the coverage in months is savings divided by expenses
  when the expenses are positive and zero when the expenses are zero; the division is
  never reached with a zero divisor, so no \<open>ZeroDivisionError\<close> is raised, and the
  goal loop of the student summary divides by at least 25.
\<close>

theorem budget_coverage_guarded:
  "(0 < or_zero (monthly_expenses p) \<longrightarrow>
      emergency_months p = Inr (or_zero (current_savings p) / or_zero (monthly_expenses p))
    \<and> savings_months p = Inr (or_zero (current_savings p) / or_zero (monthly_expenses p)))
   \<and> (or_zero (monthly_expenses p) = 0 \<longrightarrow> emergency_months p = Inr 0 \<and> savings_months p = Inr 0)
   \<and> emergency_months p \<noteq> Inl ZeroDivisionError
   \<and> savings_months p \<noteq> Inl ZeroDivisionError
   \<and> (\<exists>ms. months_to_goal (or_zero (monthly_expenses p)) (financial_goals p) = Inr ms)"
  using months_to_goal_ok [of "or_zero (monthly_expenses p)" "financial_goals p"]
  by (auto simp: emergency_months_def savings_months_def py_truediv_def Let_def)

theorem budget_coverage_guarded_witness:
  "emergency_months (new_profile\<lparr>monthly_expenses := Some 800, current_savings := Some 1200\<rparr>) = Inr (3 / 2)
   \<and> savings_months (new_profile\<lparr>monthly_expenses := Some 800, current_savings := Some 1200\<rparr>) = Inr (3 / 2)
   \<and> emergency_months (new_profile\<lparr>monthly_expenses := Some 0, current_savings := Some 1200\<rparr>) = Inr 0
   \<and> savings_months (new_profile\<lparr>monthly_expenses := Some 0, current_savings := Some 1200\<rparr>) = Inr 0
   \<and> emergency_months new_profile = Inr 0"
  using budget_coverage_guarded [of "new_profile\<lparr>monthly_expenses := Some 800, current_savings := Some 1200\<rparr>"]
        budget_coverage_guarded [of "new_profile\<lparr>monthly_expenses := Some 0, current_savings := Some 1200\<rparr>"]
        budget_coverage_guarded [of new_profile]
  by (simp add: or_zero_def new_profile_def)

section \<open>The setters of the profile\<close>

lemma enum_call_unknown:
  assumes "\<forall>m. value_of m \<noteq> v"
  shows "enum_call value_of members v = Inl ValueError"
proof -
  have "find (\<lambda>m. value_of m = v) members = None"
    using assms by (simp add: find_None_iff)
  then show ?thesis by (simp add: enum_call_def)
qed

lemma UserType_call_member: "enum_call UserType_value UserType_members (UserType_value m) = Inr m"
  by (cases m) (simp_all add: enum_call_def UserType_members_def)

lemma set_user_type_member:
  assumes "UserType_value m = lower s"
  shows "set_user_type (Raw s) p = Inr (p\<lparr>user_type := Some m\<rparr>)"
  using UserType_call_member [of m] by (simp add: set_user_type_def assms)

lemma set_user_type_unknown:
  assumes "\<forall>m. UserType_value m \<noteq> lower s"
  shows "set_user_type (Raw s) p = Inl ValueError"
  using enum_call_unknown [OF assms] by (simp add: set_user_type_def)

lemma RiskTolerance_call_member: "enum_call RiskTolerance_value RiskTolerance_members (RiskTolerance_value m) = Inr m"
  by (cases m) (simp_all add: enum_call_def RiskTolerance_members_def)

lemma set_risk_tolerance_member:
  assumes "RiskTolerance_value m = lower s"
  shows "set_risk_tolerance (Raw s) p = Inr (p\<lparr>risk_tolerance := Some m\<rparr>)"
  using RiskTolerance_call_member [of m] by (simp add: set_risk_tolerance_def assms)

lemma set_risk_tolerance_unknown:
  assumes "\<forall>m. RiskTolerance_value m \<noteq> lower s"
  shows "set_risk_tolerance (Raw s) p = Inl ValueError"
  using enum_call_unknown [OF assms] by (simp add: set_risk_tolerance_def)

lemma CommunicationStyle_call_member: "enum_call CommunicationStyle_value CommunicationStyle_members (CommunicationStyle_value m) = Inr m"
  by (cases m) (simp_all add: enum_call_def CommunicationStyle_members_def)

lemma set_communication_preference_member:
  assumes "CommunicationStyle_value m = lower s"
  shows "set_communication_preference (Raw s) p = Inr (p\<lparr>communication_preference := Some m\<rparr>)"
  using CommunicationStyle_call_member [of m] by (simp add: set_communication_preference_def assms)

lemma set_communication_preference_unknown:
  assumes "\<forall>m. CommunicationStyle_value m \<noteq> lower s"
  shows "set_communication_preference (Raw s) p = Inl ValueError"
  using enum_call_unknown [OF assms] by (simp add: set_communication_preference_def)

lemma AgeRange_call_member: "enum_call AgeRange_value AgeRange_members (AgeRange_value m) = Inr m"
  by (cases m) (simp_all add: enum_call_def AgeRange_members_def)

lemma set_age_range_member:
  assumes "AgeRange_value m = replace_underscores s"
  shows "set_age_range (Raw s) p = Inr (p\<lparr>age_range := Some m\<rparr>)"
  using AgeRange_call_member [of m] by (simp add: set_age_range_def assms)

lemma set_age_range_unknown:
  assumes "\<forall>m. AgeRange_value m \<noteq> replace_underscores s"
  shows "set_age_range (Raw s) p = Inl ValueError"
  using enum_call_unknown [OF assms] by (simp add: set_age_range_def)

lemma IncomeLevel_call_member: "enum_call IncomeLevel_value IncomeLevel_members (IncomeLevel_value m) = Inr m"
  by (cases m) (simp_all add: enum_call_def IncomeLevel_members_def)

lemma set_income_level_member:
  assumes "IncomeLevel_value m = replace_underscores s"
  shows "set_income_level (Raw s) p = Inr (p\<lparr>income_level := Some m\<rparr>)"
  using IncomeLevel_call_member [of m] by (simp add: set_income_level_def assms)

lemma set_income_level_unknown:
  assumes "\<forall>m. IncomeLevel_value m \<noteq> replace_underscores s"
  shows "set_income_level (Raw s) p = Inl ValueError"
  using enum_call_unknown [OF assms] by (simp add: set_income_level_def)

text \<open>
  Claim C9. For every raw string, each setter normalizes it (lower case for the user
  type, the risk tolerance and the communication preference; underscores to hyphens
  for the age range and the income level) and looks the result up among the values
  of its enumeration: a member with that value is assigned, and when no member has
  it the setter fails with \<open>ValueError\<close> and returns no profile, so nothing is
  assigned.
\<close>

theorem setters_normalize_then_lookup:
  "(UserType_value m1 = lower s \<longrightarrow> set_user_type (Raw s) p = Inr (p\<lparr>user_type := Some m1\<rparr>))
   \<and> ((\<forall>m. UserType_value m \<noteq> lower s) \<longrightarrow> set_user_type (Raw s) p = Inl ValueError)
   \<and> (RiskTolerance_value m2 = lower s \<longrightarrow>
        set_risk_tolerance (Raw s) p = Inr (p\<lparr>risk_tolerance := Some m2\<rparr>))
   \<and> ((\<forall>m. RiskTolerance_value m \<noteq> lower s) \<longrightarrow> set_risk_tolerance (Raw s) p = Inl ValueError)
   \<and> (CommunicationStyle_value m3 = lower s \<longrightarrow>
        set_communication_preference (Raw s) p = Inr (p\<lparr>communication_preference := Some m3\<rparr>))
   \<and> ((\<forall>m. CommunicationStyle_value m \<noteq> lower s) \<longrightarrow>
        set_communication_preference (Raw s) p = Inl ValueError)
   \<and> (AgeRange_value m4 = replace_underscores s \<longrightarrow>
        set_age_range (Raw s) p = Inr (p\<lparr>age_range := Some m4\<rparr>))
   \<and> ((\<forall>m. AgeRange_value m \<noteq> replace_underscores s) \<longrightarrow> set_age_range (Raw s) p = Inl ValueError)
   \<and> (IncomeLevel_value m5 = replace_underscores s \<longrightarrow>
        set_income_level (Raw s) p = Inr (p\<lparr>income_level := Some m5\<rparr>))
   \<and> ((\<forall>m. IncomeLevel_value m \<noteq> replace_underscores s) \<longrightarrow>
        set_income_level (Raw s) p = Inl ValueError)"
  by (simp add: set_user_type_member set_user_type_unknown set_risk_tolerance_member
      set_risk_tolerance_unknown set_communication_preference_member
      set_communication_preference_unknown set_age_range_member set_age_range_unknown
      set_income_level_member set_income_level_unknown)

theorem setters_normalize_then_lookup_witness:
  "set_user_type (Raw ''Student'') new_profile = Inr (new_profile\<lparr>user_type := Some STUDENT\<rparr>)
   \<and> set_user_type (Raw ''teacher'') new_profile = Inl ValueError
   \<and> set_risk_tolerance (Raw ''MODERATE'') new_profile = Inr (new_profile\<lparr>risk_tolerance := Some MODERATE\<rparr>)
   \<and> set_risk_tolerance (Raw ''reckless'') new_profile = Inl ValueError
   \<and> set_communication_preference (Raw ''Simple'') new_profile
        = Inr (new_profile\<lparr>communication_preference := Some SIMPLE\<rparr>)
   \<and> set_communication_preference (Raw ''verbose'') new_profile = Inl ValueError
   \<and> set_age_range (Raw ''18_25'') new_profile = Inr (new_profile\<lparr>age_range := Some AGE_18_25\<rparr>)
   \<and> set_age_range (Raw ''18 to 25'') new_profile = Inl ValueError
   \<and> set_income_level (Raw ''0_15000'') new_profile = Inr (new_profile\<lparr>income_level := Some LEVEL_0_15000\<rparr>)
   \<and> set_income_level (Raw ''plenty'') new_profile = Inl ValueError"
proof -
  have l: "lower ''Student'' = ''student''" "lower ''MODERATE'' = ''moderate''"
    "lower ''Simple'' = ''simple''" "lower ''teacher'' = ''teacher''"
    "lower ''reckless'' = ''reckless''" "lower ''verbose'' = ''verbose''"
    by code_simp+
  have r: "replace_underscores ''18_25'' = ''18-25''" "replace_underscores ''0_15000'' = ''0-15000''"
    "replace_underscores ''18 to 25'' = ''18 to 25''" "replace_underscores ''plenty'' = ''plenty''"
    by code_simp+
  have n1: "\<forall>m. UserType_value m \<noteq> ''teacher''"
  proof fix m show "UserType_value m \<noteq> ''teacher''" by (cases m) simp_all qed
  have n2: "\<forall>m. RiskTolerance_value m \<noteq> ''reckless''"
  proof fix m show "RiskTolerance_value m \<noteq> ''reckless''" by (cases m) simp_all qed
  have n3: "\<forall>m. CommunicationStyle_value m \<noteq> ''verbose''"
  proof fix m show "CommunicationStyle_value m \<noteq> ''verbose''" by (cases m) simp_all qed
  have n4: "\<forall>m. AgeRange_value m \<noteq> ''18 to 25''"
  proof fix m show "AgeRange_value m \<noteq> ''18 to 25''" by (cases m) simp_all qed
  have n5: "\<forall>m. IncomeLevel_value m \<noteq> ''plenty''"
  proof fix m show "IncomeLevel_value m \<noteq> ''plenty''" by (cases m) simp_all qed
  show ?thesis
    using setters_normalize_then_lookup [of STUDENT "''Student''" new_profile MODERATE SIMPLE AGE_18_25 LEVEL_0_15000]
          setters_normalize_then_lookup [of STUDENT "''teacher''" new_profile]
          setters_normalize_then_lookup [of _ "''MODERATE''" new_profile MODERATE]
          setters_normalize_then_lookup [of _ "''reckless''" new_profile]
          setters_normalize_then_lookup [of _ "''Simple''" new_profile _ SIMPLE]
          setters_normalize_then_lookup [of _ "''verbose''" new_profile]
          setters_normalize_then_lookup [of _ "''18_25''" new_profile _ _ AGE_18_25]
          setters_normalize_then_lookup [of _ "''18 to 25''" new_profile]
          setters_normalize_then_lookup [of _ "''0_15000''" new_profile _ _ _ LEVEL_0_15000]
          setters_normalize_then_lookup [of _ "''plenty''" new_profile]
    by (simp add: l r n1 n2 n3 n4 n5)
qed

section \<open>Response selection never fails\<close>

lemma strip_nonempty:
  assumes "x \<in> set s" and "\<not> is_space x"
  shows "strip s \<noteq> []"
proof -
  let ?t = "dropWhile is_space s"
  have t: "?t \<noteq> []" using assms by (auto simp: dropWhile_eq_Nil_conv)
  then have "\<not> is_space (hd ?t)" by (rule hd_dropWhile)
  moreover have "hd ?t \<in> set (rev ?t)" using t by simp
  ultimately have "dropWhile is_space (rev ?t) \<noteq> []"
    by (auto simp: dropWhile_eq_Nil_conv)
  then show ?thesis by (simp add: strip_def)
qed

lemma not_space_letters:
  "\<not> is_space CHR ''H''" "\<not> is_space CHR ''A''" "\<not> is_space CHR ''P''"
  "\<not> is_space CHR ''E''" "\<not> is_space CHR ''S''" "\<not> is_space CHR ''T''" "\<not> is_space CHR ''I''"
  by (simp_all add: is_space_def whitespace_def)

lemma student_savings_content_strip: "strip (student_savings_content p) \<noteq> []"
proof -
  have "CHR ''H'' \<in> set (student_savings_content p)"
    unfolding student_savings_content_def by simp
  then show ?thesis using not_space_letters(1) by (rule strip_nonempty)
qed

lemma student_investment_content_strip: "strip (student_investment_content p) \<noteq> []"
proof -
  have "CHR ''A'' \<in> set (student_investment_content p)"
    unfolding student_investment_content_def by simp
  then show ?thesis using not_space_letters(2) by (rule strip_nonempty)
qed

lemma student_budgeting_content_strip: "strip (student_budgeting_content p) \<noteq> []"
proof -
  have "CHR ''P'' \<in> set (student_budgeting_content p)"
    unfolding student_budgeting_content_def by simp
  then show ?thesis using not_space_letters(3) by (rule strip_nonempty)
qed

lemma professional_investment_content_strip: "strip (professional_investment_content p) \<noteq> []"
proof -
  have "CHR ''E'' \<in> set (professional_investment_content p)"
    unfolding professional_investment_content_def by simp
  then show ?thesis using not_space_letters(4) by (rule strip_nonempty)
qed

lemma professional_savings_content_strip: "strip (professional_savings_content p) \<noteq> []"
proof -
  have "CHR ''S'' \<in> set (professional_savings_content p)"
    unfolding professional_savings_content_def by simp
  then show ?thesis using not_space_letters(5) by (rule strip_nonempty)
qed

lemma student_response_ok:
  "\<exists>r. generate_student_response q p = Inr r \<and> content r \<noteq> []
       \<and> tone r = ''friendly and educational'' \<and> recommendations r \<noteq> []"
  unfolding generate_student_response_def student_response_of_def select_bucket_def
    student_base_responses_def
  by (simp add: get_or_def student_savings_content_strip student_investment_content_strip
      student_budgeting_content_strip)

lemma professional_response_ok:
  "\<exists>r. generate_professional_response q p = Inr r \<and> content r \<noteq> []
       \<and> tone r = ''professional and detailed''"
  unfolding generate_professional_response_def professional_response_of_def select_bucket_def
    professional_base_responses_def
  by (simp add: get_or_def professional_investment_content_strip
      professional_savings_content_strip)


lemma general_content_nonempty: "content (generate_general_response q p) \<noteq> []"
  by (simp add: generate_general_response_def)

lemma fallback_content_nonempty: "content (generate_fallback_response q) \<noteq> []"
  by (simp add: generate_fallback_response_def)

text \<open>
  Claim C4. For every query analysis and every profile, the response has a
  non-empty content. A profile whose user type is neither student nor professional
  gets the general response, whose single recommendation asks to complete the
  profile. Whatever the template banks are, an exception of the selected generator
  (a missing default bucket, a bucket without content) is caught and the result is
  the fixed fallback response, whose content asks the user to rephrase.
\<close>

theorem generate_personalized_response_never_fails:
  "content (generate_personalized_response query user_profile) \<noteq> []
   \<and> (user_type user_profile \<noteq> Some STUDENT \<and> user_type user_profile \<noteq> Some PROFESSIONAL \<longrightarrow>
        generate_personalized_response query user_profile
          = generate_general_response query user_profile
        \<and> recommendations (generate_personalized_response query user_profile)
          = [''Complete your user profile for personalized advice''])
   \<and> (user_type user_profile = Some STUDENT \<and> student_response_of student_bank query = Inl e \<longrightarrow>
        respond_with student_bank professional_bank query user_profile
          = generate_fallback_response query)
   \<and> (user_type user_profile = Some PROFESSIONAL
        \<and> professional_response_of professional_bank query = Inl e \<longrightarrow>
        respond_with student_bank professional_bank query user_profile
          = generate_fallback_response query)
   \<and> content (generate_fallback_response query)
        = ''I'm here to help with your financial questions! Could you please rephrase your question or be more specific about what you'd like to know?''"
proof -
  have nonempty: "content (generate_personalized_response query user_profile) \<noteq> []"
  proof (cases "user_type user_profile = Some STUDENT")
    case True
    from student_response_ok [of query user_profile]
    obtain r where "generate_student_response query user_profile = Inr r" "content r \<noteq> []"
      by blast
    then show ?thesis
      using True
      by (simp add: generate_personalized_response_def respond_with_def
          generate_student_response_def)
  next
    case False
    show ?thesis
    proof (cases "user_type user_profile = Some PROFESSIONAL")
      case True
      from professional_response_ok [of query user_profile]
      obtain r where "generate_professional_response query user_profile = Inr r" "content r \<noteq> []"
        by blast
      then show ?thesis
        using True
        by (simp add: generate_personalized_response_def respond_with_def
            generate_professional_response_def)
    next
      case other: False
      show ?thesis
        using False other general_content_nonempty [of query user_profile]
        by (simp add: generate_personalized_response_def respond_with_def)
    qed
  qed
  have general: "user_type user_profile \<noteq> Some STUDENT \<and> user_type user_profile \<noteq> Some PROFESSIONAL \<longrightarrow>
        generate_personalized_response query user_profile
          = generate_general_response query user_profile
        \<and> recommendations (generate_personalized_response query user_profile)
          = [''Complete your user profile for personalized advice'']"
    by (simp add: generate_personalized_response_def respond_with_def generate_general_response_def)
  have caught_s: "user_type user_profile = Some STUDENT \<and> student_response_of student_bank query = Inl e \<longrightarrow>
        respond_with student_bank professional_bank query user_profile
          = generate_fallback_response query"
    by (simp add: respond_with_def)
  have caught_p: "user_type user_profile = Some PROFESSIONAL
        \<and> professional_response_of professional_bank query = Inl e \<longrightarrow>
        respond_with student_bank professional_bank query user_profile
          = generate_fallback_response query"
    by (simp add: respond_with_def)
  have wording: "content (generate_fallback_response query)
        = ''I'm here to help with your financial questions! Could you please rephrase your question or be more specific about what you'd like to know?''"
    by (simp add: generate_fallback_response_def)
  from nonempty general caught_s caught_p wording show ?thesis by blast
qed

theorem generate_personalized_response_never_fails_witness:
  "content (generate_personalized_response garbage_query new_profile) \<noteq> []
   \<and> recommendations (generate_personalized_response garbage_query new_profile)
        = [''Complete your user profile for personalized advice'']
   \<and> respond_with [] [] garbage_query (new_profile\<lparr>user_type := Some STUDENT\<rparr>)
        = generate_fallback_response garbage_query
   \<and> respond_with [] [] garbage_query (new_profile\<lparr>user_type := Some PROFESSIONAL\<rparr>)
        = generate_fallback_response garbage_query"
proof -
  let ?st = "new_profile\<lparr>user_type := Some STUDENT\<rparr>"
  let ?pr = "new_profile\<lparr>user_type := Some PROFESSIONAL\<rparr>"
  have s: "student_response_of [] garbage_query = Inl KeyError"
    by (simp add: student_response_of_def select_bucket_def)
  have p: "professional_response_of [] garbage_query = Inl KeyError"
    by (simp add: professional_response_of_def select_bucket_def)
  have u: "user_type new_profile \<noteq> Some STUDENT \<and> user_type new_profile \<noteq> Some PROFESSIONAL"
    by (simp add: new_profile_def)
  have us: "user_type ?st = Some STUDENT" and up: "user_type ?pr = Some PROFESSIONAL"
    by simp_all
  note general = generate_personalized_response_never_fails [where query = garbage_query and user_profile = new_profile]
  note student = generate_personalized_response_never_fails [where query = garbage_query and user_profile = ?st
      and student_bank = "[]" and professional_bank = "[]" and e = KeyError]
  note professional = generate_personalized_response_never_fails [where query = garbage_query and user_profile = ?pr
      and student_bank = "[]" and professional_bank = "[]" and e = KeyError]
  from general have 1: "content (generate_personalized_response garbage_query new_profile) \<noteq> []"
    by blast
  from general u have 2: "recommendations (generate_personalized_response garbage_query new_profile)
        = [''Complete your user profile for personalized advice'']"
    by blast
  from student us s have 3: "respond_with [] [] garbage_query ?st
        = generate_fallback_response garbage_query"
    by blast
  from professional up p have 4: "respond_with [] [] garbage_query ?pr
        = generate_fallback_response garbage_query"
    by blast
  from 1 2 3 4 show ?thesis by blast
qed

section \<open>The student scenario\<close>

text \<open>
  Claim C6. The query \<open>How should I save money?\<close> scores one match in the savings
  lexicon and one in the budgeting lexicon and nothing else; the analysis has intent
  \<open>savings_advice\<close> and category \<open>savings\<close>, and for a student profile the response
  has the tone \<open>friendly and educational\<close> and a non-empty list of recommendations.
\<close>

theorem student_save_money_scenario:
  "intent_scores (lower ''How should I save money?'') = [(''savings_advice'', 1), (''budgeting_help'', 1)]
   \<and> intent (analyze_financial_query init_service ''How should I save money?'' user_profile)
        = ''savings_advice''
   \<and> category (analyze_financial_query init_service ''How should I save money?'' user_profile)
        = ''savings''
   \<and> (user_type user_profile = Some STUDENT \<longrightarrow>
        tone (generate_personalized_response
               (analyze_financial_query init_service ''How should I save money?'' user_profile)
               user_profile) = ''friendly and educational''
        \<and> recommendations (generate_personalized_response
               (analyze_financial_query init_service ''How should I save money?'' user_profile)
               user_profile) \<noteq> [])"
proof -
  let ?q = "analyze_financial_query init_service ''How should I save money?'' user_profile"
  have scores: "intent_scores (lower ''How should I save money?'')
      = [(''savings_advice'', 1), (''budgeting_help'', 1)]"
    by code_simp
  have ci: "classify_intent ''How should I save money?'' = (''savings_advice'', ''savings'')"
    by code_simp
  have i: "intent ?q = ''savings_advice''" and c: "category ?q = ''savings''"
    by (simp_all add: analyze_financial_query_def Let_def ci)
  have r: "user_type user_profile = Some STUDENT \<longrightarrow>
        tone (generate_personalized_response ?q user_profile) = ''friendly and educational''
        \<and> recommendations (generate_personalized_response ?q user_profile) \<noteq> []"
  proof
    assume st: "user_type user_profile = Some STUDENT"
    from student_response_ok [of ?q user_profile]
    obtain r where "generate_student_response ?q user_profile = Inr r"
      "tone r = ''friendly and educational''" "recommendations r \<noteq> []"
      by blast
    then show "tone (generate_personalized_response ?q user_profile) = ''friendly and educational''
        \<and> recommendations (generate_personalized_response ?q user_profile) \<noteq> []"
      using st
      by (simp add: generate_personalized_response_def respond_with_def
          generate_student_response_def)
  qed
  from scores i c r show ?thesis by blast
qed

theorem student_save_money_scenario_witness:
  "tone (generate_personalized_response
           (analyze_financial_query init_service ''How should I save money?''
              (new_profile\<lparr>name := Some ''Test User'', user_type := Some STUDENT\<rparr>))
           (new_profile\<lparr>name := Some ''Test User'', user_type := Some STUDENT\<rparr>))
     = ''friendly and educational''
   \<and> recommendations (generate_personalized_response
           (analyze_financial_query init_service ''How should I save money?''
              (new_profile\<lparr>name := Some ''Test User'', user_type := Some STUDENT\<rparr>))
           (new_profile\<lparr>name := Some ''Test User'', user_type := Some STUDENT\<rparr>)) \<noteq> []"
  using student_save_money_scenario [of "new_profile\<lparr>name := Some ''Test User'', user_type := Some STUDENT\<rparr>"]
  by (simp add: new_profile_def)

section \<open>Sentiment symmetry\<close>
































end
